theory Spec2Isabelle
  imports Complex_Main
begin

section \<open>Data model of RenewalAnalysis.py\<close>

text \<open>
  The script reads a table with the columns \<open>Customer_ID\<close>, \<open>Test_Group\<close>,
  \<open>Renewal_Status\<close> and \<open>Discounted_ARR\<close>. A data frame is the list of its rows.
  Python floats are idealised as real numbers (no rounding, no NaN), and every cell
  of the table is taken to be present.
\<close>

record row =
  Customer_ID :: nat
  Test_Group :: string
  Renewal_Status :: int
  Discounted_ARR :: real

type_synonym dataframe = "row list"

text \<open>The only exception the analysis itself can raise is the failed label lookup.\<close>

datatype py_exception = KeyError string

text \<open>Line 7: the configured significance level.\<close>

definition ALPHA :: real where
  "ALPHA = 5 / 100"

text \<open>\<open>df[df['Test_Group'] == g]\<close>\<close>

definition group_rows :: "dataframe \<Rightarrow> string \<Rightarrow> row list" where
  "group_rows df g = filter (\<lambda>r. Test_Group r = g) df"

text \<open>
  \<open>df['Test_Group'].value_counts()\<close>: a series indexed by the labels that occur,
  each with its number of rows. A label that does not occur is not a key.
\<close>

definition value_counts :: "dataframe \<Rightarrow> string \<Rightarrow> nat option" where
  "value_counts df g =
     (if group_rows df g = [] then None else Some (length (group_rows df g)))"

text \<open>\<open>series[k]\<close> and \<open>frame.loc[k, col]\<close>: a missing key raises \<open>KeyError\<close>.\<close>

definition getitem :: "(string \<Rightarrow> 'a option) \<Rightarrow> string \<Rightarrow> py_exception + 'a" where
  "getitem s k = (case s k of None \<Rightarrow> Inl (KeyError k) | Some v \<Rightarrow> Inr v)"

section \<open>Step 1.5: data quality checks (lines 27 to 33)\<close>

text \<open>
  The result is whether the imbalance warning is printed. The conjunction
  \<open>total_obs > 0 and ...\<close> is short-circuit, and the two lookups are evaluated left to
  right, \<open>'A'\<close> first.
\<close>

definition data_quality_checks :: "dataframe \<Rightarrow> py_exception + bool" where
  "data_quality_checks df =
     (let group_counts = value_counts df;
          total_obs = length df
      in if total_obs > 0 then
           (case getitem group_counts ''A'' of
              Inl e \<Rightarrow> Inl e
            | Inr a \<Rightarrow>
                (case getitem group_counts ''B'' of
                   Inl e \<Rightarrow> Inl e
                 | Inr b \<Rightarrow>
                     Inr (\<bar>real_of_int (int a - int b)\<bar> / real total_obs > 5 / 100)))
         else Inr False)"

section \<open>Step 2: descriptive statistics (lines 43 to 54)\<close>

text \<open>
  The average of a column (pandas \<open>mean\<close>), and step 1 of section 4.4. pandas computes
  it in 64-bit floating point; here it is the exact quotient, equal to the computed one
  wherever the sum and the quotient are representable without rounding.
\<close>

definition mean :: "real list \<Rightarrow> real" where
  "mean xs = sum_list xs / real (length xs)"

text \<open>Sample variance and standard deviation (pandas \<open>std\<close>, \<open>ddof = 1\<close>): undefined below two values.\<close>

definition sample_var :: "real list \<Rightarrow> real" where
  "sample_var xs = sum_list (map (\<lambda>x. (x - mean xs)\<^sup>2) xs) / (real (length xs) - 1)"

definition std :: "real list \<Rightarrow> real option" where
  "std xs = (if length xs < 2 then None else Some (sqrt (sample_var xs)))"

record group_stats =
  Total_Customers :: nat
  Renewal_Rate :: real
  Avg_Discounted_ARR :: real
  Std_Discounted_ARR :: "real option"

text \<open>\<open>df.groupby('Test_Group').agg(...)\<close>: one line per label that occurs.\<close>

definition grouped_stats :: "dataframe \<Rightarrow> string \<Rightarrow> group_stats option" where
  "grouped_stats df g =
     (let rs = group_rows df g
      in if rs = [] then None
         else Some \<lparr> Total_Customers = length rs,
                     Renewal_Rate = mean (map (\<lambda>r. real_of_int (Renewal_Status r)) rs),
                     Avg_Discounted_ARR = mean (map Discounted_ARR rs),
                     Std_Discounted_ARR = std (map Discounted_ARR rs) \<rparr>)"

section \<open>Steps 3 and 4: the conclusion printed after each test\<close>

datatype conclusion = REJECT | FAIL_TO_REJECT

text \<open>Lines 94 to 97 and 132 to 135: the same test on the p-value of either test.\<close>

definition dynamic_conclusion :: "real \<Rightarrow> real \<Rightarrow> conclusion" where
  "dynamic_conclusion alpha p_value = (if p_value < alpha then REJECT else FAIL_TO_REJECT)"

section \<open>Step 5: final business interpretation (lines 141 to 187)\<close>

text \<open>
  Lines 141 and 142. The threshold is an argument here and in \<open>dynamic_conclusion\<close> and
  \<open>final_recommendation\<close>; the script has it as the module constant \<open>ALPHA\<close>, which
  \<open>analysis\<close> passes.
\<close>

definition renewal_is_significant :: "real \<Rightarrow> real \<Rightarrow> bool" where
  "renewal_is_significant alpha p_value_prop = (p_value_prop < alpha)"

definition arr_is_significant :: "real \<Rightarrow> real \<Rightarrow> bool" where
  "arr_is_significant alpha p_value_arr = (p_value_arr < alpha)"

text \<open>
  The recommendation that is printed. \<open>Clear_Winner g\<close>: group \<open>g\<close> is the clear
  winner across both metrics. \<open>Mixed\<close>: the results are mixed (conflicting winners).
  \<open>Only_One r a\<close>: only one metric is significant; \<open>r\<close> is the winner named for the
  renewal rate when it is significant, \<open>a\<close> the one named for the average ARR.
  \<open>Neither\<close>: no metric is significant.
\<close>

datatype recommendation =
    Clear_Winner string
  | Mixed
  | Only_One "string option" "string option"
  | Neither

definition final_recommendation ::
  "real \<Rightarrow> real \<Rightarrow> real \<Rightarrow> real \<Rightarrow> real \<Rightarrow> real \<Rightarrow> real \<Rightarrow> recommendation" where
  "final_recommendation alpha p_value_prop p_value_arr
       raw_renewal_A raw_renewal_B raw_arr_A raw_arr_B =
     (if renewal_is_significant alpha p_value_prop \<and> arr_is_significant alpha p_value_arr then
        (if raw_renewal_A > raw_renewal_B \<and> raw_arr_A > raw_arr_B then Clear_Winner ''A''
         else if raw_renewal_B > raw_renewal_A \<and> raw_arr_B > raw_arr_A then Clear_Winner ''B''
         else Mixed)
      else if renewal_is_significant alpha p_value_prop \<or> arr_is_significant alpha p_value_arr then
        Only_One
          (if renewal_is_significant alpha p_value_prop
           then Some (if raw_renewal_A > raw_renewal_B then ''A'' else ''B'') else None)
          (if arr_is_significant alpha p_value_arr
           then Some (if raw_arr_A > raw_arr_B then ''A'' else ''B'') else None)
      else Neither)"

section \<open>The whole script\<close>

record report =
  balance_warning :: bool
  stats_A :: group_stats
  stats_B :: group_stats
  ztest_result :: "real \<times> real"
  ztest_conclusion :: conclusion
  ttest_result :: "real \<times> real"
  ttest_conclusion :: conclusion
  recommended :: recommendation

text \<open>
  The two library calls are parameters: \<open>ztest\<close> stands for
  \<open>proportions_ztest(count=[kA, kB], nobs=[nA, nB])\<close> and \<open>ttest\<close> for
  \<open>stats.ttest_ind(arr_A, arr_B, equal_var=False)\<close>; each returns the statistic and the
  p-value. The steps run in the order of the script, and the first exception ends the run.
\<close>

definition analysis ::
  "(int \<times> int \<Rightarrow> nat \<times> nat \<Rightarrow> real \<times> real) \<Rightarrow> (real list \<Rightarrow> real list \<Rightarrow> real \<times> real)
     \<Rightarrow> dataframe \<Rightarrow> py_exception + report" where
  "analysis ztest ttest df =
     (case data_quality_checks df of
        Inl e \<Rightarrow> Inl e
      | Inr warn \<Rightarrow>
         (case getitem (grouped_stats df) ''A'' of
            Inl e \<Rightarrow> Inl e
          | Inr sA \<Rightarrow>
             (case getitem (grouped_stats df) ''B'' of
                Inl e \<Rightarrow> Inl e
              | Inr sB \<Rightarrow>
                 (let raw_renewal_A = Renewal_Rate sA;
                      raw_renewal_B = Renewal_Rate sB;
                      raw_arr_A = Avg_Discounted_ARR sA;
                      raw_arr_B = Avg_Discounted_ARR sB;
                      renewals_A = sum_list (map Renewal_Status (group_rows df ''A''));
                      nobs_A = length (group_rows df ''A'');
                      renewals_B = sum_list (map Renewal_Status (group_rows df ''B''));
                      nobs_B = length (group_rows df ''B'');
                      zres = ztest (renewals_A, renewals_B) (nobs_A, nobs_B);
                      p_value_prop = snd zres;
                      arr_A = map Discounted_ARR (group_rows df ''A'');
                      arr_B = map Discounted_ARR (group_rows df ''B'');
                      tres = ttest arr_A arr_B;
                      p_value_arr = snd tres
                  in Inr \<lparr> balance_warning = warn,
                           stats_A = sA,
                           stats_B = sB,
                           ztest_result = zres,
                           ztest_conclusion = dynamic_conclusion ALPHA p_value_prop,
                           ttest_result = tres,
                           ttest_conclusion = dynamic_conclusion ALPHA p_value_arr,
                           recommended =
                             final_recommendation ALPHA p_value_prop p_value_arr
                               raw_renewal_A raw_renewal_B raw_arr_A raw_arr_B \<rparr>))))"

text \<open>
  Which tests a printed recommendation presents as significant: both in the first two
  kinds, the ones with a named winner in the third, none in the last.
\<close>

fun shows_renewal_significant :: "recommendation \<Rightarrow> bool" where
  "shows_renewal_significant (Clear_Winner g) = True"
| "shows_renewal_significant Mixed = True"
| "shows_renewal_significant (Only_One r a) = (r \<noteq> None)"
| "shows_renewal_significant Neither = False"

fun shows_arr_significant :: "recommendation \<Rightarrow> bool" where
  "shows_arr_significant (Clear_Winner g) = True"
| "shows_arr_significant Mixed = True"
| "shows_arr_significant (Only_One r a) = (a \<noteq> None)"
| "shows_arr_significant Neither = False"

section \<open>The two library tests\<close>

text \<open>
  The functions \<open>proportions_ztest\<close> (statsmodels) and \<open>ttest_ind\<close> (scipy) that the
  script calls at lines 85 to 88 and 122 to 126 are not part of the repository. The
  definitions of this section follow sections 4.3, 4.4 and 7 of the specification, over
  the real numbers.
\<close>

text \<open>
  Modelled from the spec: the error kind of section 7 for degenerate statistical inputs
  (the library code that would signal it is missing).
\<close>

datatype computation_error = ComputationError

subsection \<open>Two-sample z-test for proportions (section 4.3)\<close>

text \<open>
  Modelled from the spec: the standard normal distribution function \<open>\<Phi>\<close> of step 4 of
  the missing \<open>proportions_ztest\<close>, as its power series around 0:
  \<open>\<Phi>(x) = 1/2 + (1 / sqrt (2 \<pi>)) \<Sum>n. (-1)^n x^(2n+1) / (2^n n! (2n+1))\<close>.
  Lemmas \<open>DERIV_Phi\<close> and \<open>Phi_0\<close> below relate it to the normal density.
\<close>

definition Phi_series :: "real \<Rightarrow> real" where
  "Phi_series x = (\<Sum>n. (- 1) ^ n * x ^ (2 * n + 1) / (2 ^ n * fact n * real (2 * n + 1)))"

definition Phi :: "real \<Rightarrow> real" where
  "Phi x = 1 / 2 + Phi_series x / sqrt (2 * pi)"

text \<open>
  Modelled from the spec: step 1 of the missing \<open>proportions_ztest\<close>, the pooled
  proportion \<open>(k_A + k_B) / (n_A + n_B)\<close>.
\<close>

definition pooled_proportion :: "int \<times> int \<Rightarrow> nat \<times> nat \<Rightarrow> real" where
  "pooled_proportion count nobs =
     real_of_int (fst count + snd count) / real (fst nobs + snd nobs)"

text \<open>
  Modelled from the spec: step 2 of the missing \<open>proportions_ztest\<close>, the pooled
  standard error.
\<close>

definition pooled_SE :: "int \<times> int \<Rightarrow> nat \<times> nat \<Rightarrow> real" where
  "pooled_SE count nobs =
     sqrt (pooled_proportion count nobs * (1 - pooled_proportion count nobs)
             * (1 / real (fst nobs) + 1 / real (snd nobs)))"

text \<open>
  Modelled from the spec: step 3 of the missing \<open>proportions_ztest\<close>, the statistic
  \<open>z = (k_A / n_A - k_B / n_B) / SE\<close>.
\<close>

definition z_statistic :: "int \<times> int \<Rightarrow> nat \<times> nat \<Rightarrow> real" where
  "z_statistic count nobs =
     (real_of_int (fst count) / real (fst nobs) - real_of_int (snd count) / real (snd nobs))
       / pooled_SE count nobs"

text \<open>
  Modelled from the spec: step 4 of the missing \<open>proportions_ztest\<close>, the two-sided
  p-value \<open>2 (1 - \<Phi>(|z|))\<close>.
\<close>

definition normal_p_value :: "real \<Rightarrow> real" where
  "normal_p_value z = 2 * (1 - Phi \<bar>z\<bar>)"

text \<open>
  Modelled from the spec: the missing \<open>proportions_ztest\<close> as a whole. A zero standard
  error is a computation error; otherwise the result is the statistic and the p-value.
\<close>

definition proportions_ztest ::
  "int \<times> int \<Rightarrow> nat \<times> nat \<Rightarrow> computation_error + real \<times> real" where
  "proportions_ztest count nobs =
     (if pooled_SE count nobs = 0 then Inl ComputationError
      else Inr (z_statistic count nobs, normal_p_value (z_statistic count nobs)))"

subsection \<open>Welch's two-sample t-test (section 4.4)\<close>

text \<open>
  Modelled from the spec: the term \<open>s\<^sup>2 / n\<close> of one group in steps 2 and 4 of the
  missing \<open>ttest_ind\<close>; step 1 (mean and sample variance) is \<open>mean\<close> and \<open>sample_var\<close>.
\<close>

definition var_over_n :: "real list \<Rightarrow> real" where
  "var_over_n xs = sample_var xs / real (length xs)"

text \<open>Modelled from the spec: step 2 of the missing \<open>ttest_ind\<close>, the standard error.\<close>

definition welch_SE :: "real list \<Rightarrow> real list \<Rightarrow> real" where
  "welch_SE a b = sqrt (var_over_n a + var_over_n b)"

text \<open>Modelled from the spec: step 3 of the missing \<open>ttest_ind\<close>, the statistic.\<close>

definition t_statistic :: "real list \<Rightarrow> real list \<Rightarrow> real" where
  "t_statistic a b = (mean a - mean b) / welch_SE a b"

text \<open>
  Modelled from the spec: step 4 of the missing \<open>ttest_ind\<close>, the Welch--Satterthwaite
  degrees of freedom.
\<close>

definition welch_df :: "real list \<Rightarrow> real list \<Rightarrow> real" where
  "welch_df a b =
     welch_SE a b ^ 4
       / ((var_over_n a)\<^sup>2 / (real (length a) - 1) + (var_over_n b)\<^sup>2 / (real (length b) - 1))"

text \<open>
  Modelled from the spec: Student's t distribution function of step 5 of the missing
  \<open>ttest_ind\<close>, for a real number \<open>df\<close> of degrees of freedom. It is the function whose
  derivative is a constant multiple of \<open>(1 + x\<^sup>2 / df) powr (- (df + 1) / 2)\<close> and
  which tends to 0 at minus infinity and to 1 at plus infinity.
\<close>

definition t_kernel :: "real \<Rightarrow> real \<Rightarrow> real" where
  "t_kernel df x = (1 + x\<^sup>2 / df) powr (- (df + 1) / 2)"

definition is_t_cdf :: "real \<Rightarrow> (real \<Rightarrow> real) \<Rightarrow> bool" where
  "is_t_cdf df F \<longleftrightarrow>
     (\<exists>c. \<forall>x. (F has_real_derivative c * t_kernel df x) (at x)) \<and>
     (F \<longlongrightarrow> 0) at_bot \<and> (F \<longlongrightarrow> 1) at_top"

definition t_cdf :: "real \<Rightarrow> real \<Rightarrow> real" where
  "t_cdf df = (THE F. is_t_cdf df F)"

text \<open>
  Modelled from the spec: step 5 of the missing \<open>ttest_ind\<close>, the two-sided p-value
  \<open>2 (1 - T_df(|t|))\<close>.
\<close>

definition t_p_value :: "real \<Rightarrow> real \<Rightarrow> real" where
  "t_p_value df t = 2 * (1 - t_cdf df \<bar>t\<bar>)"

text \<open>
  Modelled from the spec: the missing \<open>ttest_ind\<close> (with \<open>equal_var=False\<close>) as a whole.
  A group below two observations, or a zero standard error, is a computation error.
\<close>

definition ttest_ind :: "real list \<Rightarrow> real list \<Rightarrow> computation_error + real \<times> real" where
  "ttest_ind a b =
     (if length a < 2 \<or> length b < 2 \<or> welch_SE a b = 0 then Inl ComputationError
      else Inr (t_statistic a b, t_p_value (welch_df a b) (t_statistic a b)))"

subsection \<open>A closed form for 8 degrees of freedom\<close>

text \<open>
  For 8 degrees of freedom Student's distribution function is an algebraic function of
  \<open>x\<close> and \<open>1 / sqrt (8 + x\<^sup>2)\<close> (lemma \<open>t_cdf_8\<close> below). The two definitions serve
  the evaluation of scenario 2 only.
\<close>

definition t8_inv_root :: "real \<Rightarrow> real" where
  "t8_inv_root x = inverse (sqrt (8 + x\<^sup>2))"

definition t8_closed :: "real \<Rightarrow> real" where
  "t8_closed x =
     1 / 2 + x * (t8_inv_root x / 2 + 2 * t8_inv_root x ^ 3 + 12 * t8_inv_root x ^ 5
                    + 80 * t8_inv_root x ^ 7)"

subsection \<open>The two calls as the script receives them\<close>



text \<open>
  Modelled from the spec: the two missing library functions as functions that always
  return a pair, for use in examples. Where the specification has a computation error,
  the pair \<open>(0, 1)\<close> stands for the library's NaN results: its p-value is below no
  threshold the script uses. The examples apply them where the tests have a result.
\<close>

definition library_ztest :: "int \<times> int \<Rightarrow> nat \<times> nat \<Rightarrow> real \<times> real" where
  "library_ztest count nobs =
     (case proportions_ztest count nobs of Inr r \<Rightarrow> r | Inl e \<Rightarrow> (0, 1))"

definition library_ttest :: "real list \<Rightarrow> real list \<Rightarrow> real \<times> real" where
  "library_ttest a b = (case ttest_ind a b of Inr r \<Rightarrow> r | Inl e \<Rightarrow> (0, 1))"

section \<open>Example inputs\<close>

text \<open>Scenario 4 of the specification: 52 against 48 rows, and 53 against 47.\<close>

definition customer :: "string \<Rightarrow> int \<Rightarrow> real \<Rightarrow> row" where
  "customer g renewed arr =
     \<lparr> Customer_ID = 0, Test_Group = g, Renewal_Status = renewed, Discounted_ARR = arr \<rparr>"

definition counts_52_48 :: dataframe where
  "counts_52_48 = replicate 52 (customer ''A'' 1 100) @ replicate 48 (customer ''B'' 0 90)"

definition counts_53_47 :: dataframe where
  "counts_53_47 = replicate 53 (customer ''A'' 1 100) @ replicate 47 (customer ''B'' 0 90)"

text \<open>Scenario 3: only group A is present.\<close>

definition only_group_A :: dataframe where
  "only_group_A = [customer ''A'' 1 100, customer ''A'' 0 80]"

definition two_groups :: dataframe where
  "two_groups = [customer ''A'' 1 100, customer ''B'' 0 80]"

text \<open>Stand-ins for the two library calls with fixed results (statistic, p-value).\<close>

definition fixed_ztest :: "int \<times> int \<Rightarrow> nat \<times> nat \<Rightarrow> real \<times> real" where
  "fixed_ztest count nobs = (2, 1 / 100)"

definition fixed_ttest :: "real list \<Rightarrow> real list \<Rightarrow> real \<times> real" where
  "fixed_ttest a b = (0, 1 / 2)"

text \<open>Scenario 2: the continuous outcome of the two groups.\<close>

definition arr_A_example :: "real list" where
  "arr_A_example = [100, 102, 98, 101, 99]"

definition arr_B_example :: "real list" where
  "arr_B_example = [110, 108, 112, 109, 111]"


text \<open>
  Scenario 1 as a table: 8 of 10 customers of group A and 5 of 10 of group B renewed.
  \<open>scenario1_run\<close> is the run of the script on it.
\<close>

definition scenario1_groups :: dataframe where
  "scenario1_groups =
     [customer ''A'' 1 100, customer ''A'' 1 102, customer ''A'' 1 98, customer ''A'' 1 101,
      customer ''A'' 1 99, customer ''A'' 1 100, customer ''A'' 1 102, customer ''A'' 1 98,
      customer ''A'' 0 101, customer ''A'' 0 99,
      customer ''B'' 1 110, customer ''B'' 1 108, customer ''B'' 1 112, customer ''B'' 1 109,
      customer ''B'' 1 111, customer ''B'' 0 110, customer ''B'' 0 108, customer ''B'' 0 112,
      customer ''B'' 0 109, customer ''B'' 0 111]"

definition scenario1_run :: "py_exception + report" where
  "scenario1_run = analysis library_ztest library_ttest scenario1_groups"

text \<open>A stand-in for the proportion test whose p-value is exactly 0.05.\<close>

definition boundary_ztest :: "int \<times> int \<Rightarrow> nat \<times> nat \<Rightarrow> real \<times> real" where
  "boundary_ztest count nobs = (196 / 100, 5 / 100)"

section \<open>Helper facts\<close>

lemma getitem_Some: "s k = Some v \<Longrightarrow> getitem s k = Inr v"
  by (simp add: getitem_def)

lemma getitem_None: "s k = None \<Longrightarrow> getitem s k = Inl (KeyError k)"
  by (simp add: getitem_def)

lemma data_quality_checks_present:
  assumes "group_rows df ''A'' \<noteq> []" and "group_rows df ''B'' \<noteq> []"
  shows "data_quality_checks df =
           Inr (\<bar>real_of_int (int (length (group_rows df ''A'')) - int (length (group_rows df ''B'')))\<bar>
                  / real (length df) > 5 / 100)"
proof -
  have "df \<noteq> []" using assms(1) by (auto simp: group_rows_def)
  then show ?thesis
    using assms by (simp add: data_quality_checks_def value_counts_def getitem_def)
qed

lemma analysis_present:
  assumes "group_rows df ''A'' \<noteq> []" and "group_rows df ''B'' \<noteq> []"
  shows "\<exists>rep. analysis ztest ttest df = Inr rep \<and>
           Inr (balance_warning rep) = data_quality_checks df"
  using assms data_quality_checks_present [OF assms]
  by (simp add: analysis_def grouped_stats_def getitem_def Let_def)

lemma group_rows_append: "group_rows (xs @ ys) g = group_rows xs g @ group_rows ys g"
  by (simp add: group_rows_def)

lemma group_rows_replicate:
  "group_rows (replicate n r) g = (if Test_Group r = g then replicate n r else [])"
  by (simp add: group_rows_def)

lemma analysis_missing:
  assumes "group_rows df ''A'' = [] \<or> group_rows df ''B'' = []"
  shows "analysis ztest ttest df =
           Inl (KeyError (if group_rows df ''A'' = [] then ''A'' else ''B''))"
  using assms
  by (auto simp: analysis_def data_quality_checks_def value_counts_def grouped_stats_def
        getitem_def Let_def split: sum.splits)

lemma sample_var_nonneg: "2 \<le> length xs \<Longrightarrow> 0 \<le> sample_var xs"
proof -
  assume "2 \<le> length xs"
  then have "0 < real (length xs) - 1" by simp
  moreover have "0 \<le> sum_list (map (\<lambda>x. (x - mean xs)\<^sup>2) xs)"
    by (rule sum_list_nonneg) auto
  ultimately show ?thesis by (simp add: sample_var_def)
qed

lemma var_over_n_nonneg: "2 \<le> length xs \<Longrightarrow> 0 \<le> var_over_n xs"
  using sample_var_nonneg [of xs] by (simp add: var_over_n_def)

lemma satterthwaite_ratio_bounds:
  fixes u v m k :: real
  assumes "0 \<le> u" "0 \<le> v" "0 < u + v" "1 \<le> m" "1 \<le> k"
  shows "min m k \<le> (u + v)\<^sup>2 / (u\<^sup>2 / m + v\<^sup>2 / k)"
    and "(u + v)\<^sup>2 / (u\<^sup>2 / m + v\<^sup>2 / k) \<le> m + k"
proof -
  have m: "0 < m" and k: "0 < k" using assms by linarith+
  have "0 < u \<or> 0 < v" using assms by linarith
  then have "0 < u\<^sup>2 / m + v\<^sup>2 / k"
  proof
    assume "0 < u"
    then have "0 < u\<^sup>2 / m" using m by simp
    moreover have "0 \<le> v\<^sup>2 / k" using k by simp
    ultimately show ?thesis by linarith
  next
    assume "0 < v"
    then have "0 < v\<^sup>2 / k" using k by simp
    moreover have "0 \<le> u\<^sup>2 / m" using m by simp
    ultimately show ?thesis by linarith
  qed
  note D = this
  have "min m k * (u\<^sup>2 / m) \<le> u\<^sup>2"
  proof -
    have "min m k / m \<le> 1" using m by simp
    then have "min m k / m * u\<^sup>2 \<le> 1 * u\<^sup>2" by (rule mult_right_mono) simp
    then show ?thesis by simp
  qed
  moreover have "min m k * (v\<^sup>2 / k) \<le> v\<^sup>2"
  proof -
    have "min m k / k \<le> 1" using k by simp
    then have "min m k / k * v\<^sup>2 \<le> 1 * v\<^sup>2" by (rule mult_right_mono) simp
    then show ?thesis by simp
  qed
  moreover have "u\<^sup>2 + v\<^sup>2 \<le> (u + v)\<^sup>2"
    using assms(1,2) by (simp add: power2_sum)
  ultimately have "min m k * (u\<^sup>2 / m + v\<^sup>2 / k) \<le> (u + v)\<^sup>2"
    by (simp add: distrib_left)
  then show "min m k \<le> (u + v)\<^sup>2 / (u\<^sup>2 / m + v\<^sup>2 / k)"
    using D by (simp add: pos_le_divide_eq)
  have "0 \<le> (k * u - m * v)\<^sup>2" by simp
  then have "2 * (k * u) * (m * v) \<le> (k * u)\<^sup>2 + (m * v)\<^sup>2"
    by (simp add: power2_diff)
  then have "m * k * (u + v)\<^sup>2 \<le> (m + k) * (k * u\<^sup>2 + m * v\<^sup>2)"
    by (simp add: power2_eq_square algebra_simps)
  moreover have "(m + k) * (u\<^sup>2 / m + v\<^sup>2 / k) = (m + k) * (k * u\<^sup>2 + m * v\<^sup>2) / (m * k)"
    using m k by (simp add: field_simps)
  ultimately have "(u + v)\<^sup>2 \<le> (m + k) * (u\<^sup>2 / m + v\<^sup>2 / k)"
    using m k by (simp add: pos_le_divide_eq mult.commute)
  then show "(u + v)\<^sup>2 / (u\<^sup>2 / m + v\<^sup>2 / k) \<le> m + k"
    using D by (simp add: pos_divide_le_eq)
qed

lemma example_means: "mean arr_A_example = 100" "mean arr_B_example = 110"
  by (simp_all add: mean_def arr_A_example_def arr_B_example_def)

lemma example_vars: "sample_var arr_A_example = 5 / 2" "sample_var arr_B_example = 5 / 2"
  by (simp_all add: sample_var_def mean_def arr_A_example_def arr_B_example_def)

lemma example_var_over_n: "var_over_n arr_A_example = 1 / 2" "var_over_n arr_B_example = 1 / 2"
  by (simp_all add: var_over_n_def example_vars) (simp_all add: arr_A_example_def arr_B_example_def)

lemma example_SE: "welch_SE arr_A_example arr_B_example = 1"
  by (simp add: welch_SE_def example_var_over_n)

lemma example_t: "t_statistic arr_A_example arr_B_example = - 10"
  by (simp add: t_statistic_def example_SE example_means)

lemma example_df: "welch_df arr_A_example arr_B_example = 8"
  by (simp add: welch_df_def example_SE example_var_over_n)
     (simp add: arr_A_example_def arr_B_example_def power2_eq_square)

lemma scenario1_pooled: "pooled_proportion (8, 5) (10, 10) = 13 / 20"
  by (simp add: pooled_proportion_def)

lemma scenario1_SE: "pooled_SE (8, 5) (10, 10) = sqrt (91 / 2000)"
  by (simp add: pooled_SE_def scenario1_pooled)

lemma scenario1_SE_bounds: "21330 / 100000 < pooled_SE (8, 5) (10, 10)" "pooled_SE (8, 5) (10, 10) < 21331 / 100000"
  unfolding scenario1_SE
  by (rule real_less_rsqrt, simp add: power2_eq_square) (rule real_less_lsqrt, simp_all add: power2_eq_square)

subsection \<open>The normal distribution function and the normal density\<close>

text \<open>
  \<open>Phi\<close> is the function with value \<open>1/2\<close> at 0 whose derivative is the standard normal
  density \<open>exp (- x\<^sup>2 / 2) / sqrt (2 \<pi>)\<close>.
\<close>

lemma Phi_coeff_summable:
  fixes y :: real
  shows "summable (\<lambda>n. (- 1 / 2) ^ n / (fact n * real (2 * n + 1)) * y ^ n)"
proof (rule summable_comparison_test' [where N = 0])
  show "summable (\<lambda>n. inverse (fact n) * (\<bar>y\<bar> / 2) ^ n)"
    by (rule summable_exp)
  fix n :: nat
  have "norm ((- 1 / 2) ^ n / (fact n * real (2 * n + 1)) * y ^ n)
      = (\<bar>y\<bar> / 2) ^ n / (fact n * real (2 * n + 1))"
    by (simp add: norm_mult norm_divide norm_power power_divide power_abs abs_mult)
  also have "\<dots> \<le> (\<bar>y\<bar> / 2) ^ n / (fact n * 1)"
    by (intro divide_left_mono mult_left_mono) auto
  finally show "norm ((- 1 / 2) ^ n / (fact n * real (2 * n + 1)) * y ^ n)
      \<le> inverse (fact n) * (\<bar>y\<bar> / 2) ^ n"
    by (simp add: field_simps)
qed

lemma Phi_series_ode:
  fixes y :: real
  defines "b \<equiv> \<lambda>n. (- 1 / 2) ^ n / (fact n * real (2 * n + 1))"
  shows "(\<Sum>n. b n * y ^ n) + 2 * y * (\<Sum>n. diffs b n * y ^ n) = exp (- y / 2)"
proof -
  have summ: "summable (\<lambda>n. b n * x ^ n)" for x :: real
    unfolding b_def by (rule Phi_coeff_summable)
  have sd: "summable (\<lambda>n. diffs b n * y ^ n)"
    by (rule termdiff_converges_all) (rule summ)
  have "(\<lambda>n. of_nat n * b n * y ^ (n - Suc 0)) sums (\<Sum>n. diffs b n * y ^ n)"
    by (rule diffs_equiv [OF sd])
  then have m: "(\<lambda>n. (2 * y) * (of_nat n * b n * y ^ (n - Suc 0))) sums (2 * y * (\<Sum>n. diffs b n * y ^ n))"
    by (rule sums_mult)
  have e2: "(2 * y) * (of_nat n * b n * y ^ (n - Suc 0)) = 2 * real n * b n * y ^ n" for n
    by (cases n) simp_all
  have s2: "(\<lambda>n. 2 * real n * b n * y ^ n) sums (2 * y * (\<Sum>n. diffs b n * y ^ n))"
    using m unfolding e2 .
  have s1: "(\<lambda>n. b n * y ^ n) sums (\<Sum>n. b n * y ^ n)"
    by (rule summable_sums [OF summ])
  have s12: "(\<lambda>n. b n * y ^ n + 2 * real n * b n * y ^ n) sums
          ((\<Sum>n. b n * y ^ n) + 2 * y * (\<Sum>n. diffs b n * y ^ n))"
    by (rule sums_add [OF s1 s2])
  have e3: "b n * y ^ n + 2 * real n * b n * y ^ n = (- y / 2) ^ n /\<^sub>R fact n" for n
  proof -
    have "b n * y ^ n + 2 * real n * b n * y ^ n = (real (2 * n + 1) * b n) * y ^ n"
      by (simp add: algebra_simps)
    also have "real (2 * n + 1) * b n = (- 1 / 2) ^ n / fact n"
      by (simp add: b_def)
    also have "(- 1 / 2) ^ n / fact n * y ^ n = (- y / 2) ^ n /\<^sub>R fact n"
    proof -
      have "(- y / 2) ^ n = ((- 1 / 2) * y) ^ n" by simp
      also have "\<dots> = (- 1 / 2) ^ n * y ^ n" by (rule power_mult_distrib)
      finally have h: "(- y / 2) ^ n = (- 1 / 2) ^ n * y ^ n" .
      show ?thesis unfolding h by (simp add: field_simps)
    qed
    finally show ?thesis .
  qed
  have "(\<lambda>n. (- y / 2) ^ n /\<^sub>R fact n) sums
          ((\<Sum>n. b n * y ^ n) + 2 * y * (\<Sum>n. diffs b n * y ^ n))"
    using s12 unfolding e3 .
  then show ?thesis using exp_converges [of "- y / 2"] by (rule sums_unique2)
qed

lemma Phi_series_alt:
  "Phi_series x = x * (\<Sum>n. (- 1 / 2) ^ n / (fact n * real (2 * n + 1)) * (x\<^sup>2) ^ n)"
proof -
  have "(- 1) ^ n * x ^ (2 * n + 1) / (2 ^ n * fact n * real (2 * n + 1))
      = x * ((- 1 / 2) ^ n / (fact n * real (2 * n + 1)) * (x\<^sup>2) ^ n)" for n
  proof -
    have "x ^ (2 * n + 1) = x * (x\<^sup>2) ^ n" by (simp add: power_mult)
    moreover have "(- 1 / 2 :: real) ^ n = (- 1) ^ n / 2 ^ n" by (rule power_divide)
    moreover have "s * (x * y) / (t * f * r) = x * (s / t / (f * r) * y)" for s y t f r :: real
      by (simp add: mult_ac)
    ultimately show ?thesis by (simp only:)
  qed
  then have "Phi_series x = (\<Sum>n. x * ((- 1 / 2) ^ n / (fact n * real (2 * n + 1)) * (x\<^sup>2) ^ n))"
    unfolding Phi_series_def by (simp only:)
  also have "\<dots> = x * (\<Sum>n. (- 1 / 2) ^ n / (fact n * real (2 * n + 1)) * (x\<^sup>2) ^ n)"
    by (rule suminf_mult [OF Phi_coeff_summable])
  finally show ?thesis .
qed

lemma DERIV_Phi_series: "(Phi_series has_real_derivative exp (- x\<^sup>2 / 2)) (at x)"
proof -
  define b :: "nat \<Rightarrow> real" where "b = (\<lambda>n. (- 1 / 2) ^ n / (fact n * real (2 * n + 1)))"
  define g :: "real \<Rightarrow> real" where "g = (\<lambda>y. \<Sum>n. b n * y ^ n)"
  have summ: "summable (\<lambda>n. b n * y ^ n)" for y :: real
    unfolding b_def by (rule Phi_coeff_summable)
  have Dg: "(g has_real_derivative (\<Sum>n. diffs b n * y ^ n)) (at y)" for y
    unfolding g_def by (rule termdiffs_strong_converges_everywhere) (rule summ)
  have "((\<lambda>x. x * g (x\<^sup>2)) has_real_derivative
          g (x\<^sup>2) + 2 * x\<^sup>2 * (\<Sum>n. diffs b n * (x\<^sup>2) ^ n)) (at x)"
    by (auto intro!: derivative_eq_intros DERIV_chain2 [OF Dg] simp: power2_eq_square)
  moreover have "g (x\<^sup>2) + 2 * x\<^sup>2 * (\<Sum>n. diffs b n * (x\<^sup>2) ^ n) = exp (- x\<^sup>2 / 2)"
    unfolding g_def b_def by (rule Phi_series_ode)
  moreover have "(\<lambda>x. x * g (x\<^sup>2)) = Phi_series"
    by (auto simp: g_def b_def Phi_series_alt)
  ultimately show ?thesis by (simp only:)
qed

lemma DERIV_Phi: "(Phi has_real_derivative exp (- x\<^sup>2 / 2) / sqrt (2 * pi)) (at x)"
proof -
  have "((\<lambda>x. Phi_series x / sqrt (2 * pi)) has_real_derivative
          exp (- x\<^sup>2 / 2) / sqrt (2 * pi)) (at x)"
    by (rule DERIV_cdivide [OF DERIV_Phi_series])
  then have "((\<lambda>x. 1 / 2 + Phi_series x / sqrt (2 * pi)) has_real_derivative
          0 + exp (- x\<^sup>2 / 2) / sqrt (2 * pi)) (at x)"
    by (intro DERIV_add DERIV_const)
  then have "((\<lambda>x. 1 / 2 + Phi_series x / sqrt (2 * pi)) has_real_derivative
          exp (- x\<^sup>2 / 2) / sqrt (2 * pi)) (at x)"
    by (simp only: add_0_left)
  moreover have "(\<lambda>x. 1 / 2 + Phi_series x / sqrt (2 * pi)) = Phi"
    by (auto simp: Phi_def)
  ultimately show ?thesis by (simp only:)
qed


subsection \<open>Bounds for \<open>pi\<close> and for the normal distribution function\<close>

lemma Phi_series_term:
  fixes x :: real
  shows "(- 1) ^ n * x ^ (2 * n + 1) / (2 ^ n * fact n * real (2 * n + 1)) =
         x * ((- 1) ^ n * ((x\<^sup>2 / 2) ^ n / (fact n * real (2 * n + 1))))"
proof -
  have "x ^ (2 * n + 1) = x * (x\<^sup>2) ^ n" by (simp add: power_mult)
  moreover have "(x\<^sup>2 / 2) ^ n = (x\<^sup>2) ^ n / 2 ^ n" by (simp add: power_divide)
  moreover have "s * (x * y) / (t * f * r) = x * (s * (y / t / (f * r)))" for s y t f r :: real
    by (simp add: mult_ac)
  ultimately show ?thesis by (simp only:)
qed

lemma Phi_series_Leibniz:
  fixes x :: real
  assumes "0 \<le> x" and "x\<^sup>2 \<le> 2"
  shows "x * (\<Sum>i<2 * n. (- 1) ^ i * ((x\<^sup>2 / 2) ^ i / (fact i * real (2 * i + 1)))) \<le> Phi_series x"
    and "Phi_series x \<le> x * (\<Sum>i<2 * n + 1. (- 1) ^ i * ((x\<^sup>2 / 2) ^ i / (fact i * real (2 * i + 1))))"
proof -
  define q where "q = x\<^sup>2 / 2"
  define a where "a i = q ^ i / (fact i * real (2 * i + 1))" for i
  have q: "0 \<le> q" "q \<le> 1" using assms by (simp_all add: q_def)
  have a_nonneg: "0 \<le> a i" for i using q by (simp add: a_def)
  have a_le: "a i \<le> inverse (real (Suc i))" for i
  proof -
    have "q ^ i \<le> 1" using q by (simp add: power_le_one)
    moreover have "real (Suc i) \<le> fact i * real (2 * i + 1)"
    proof -
      have "(1::real) \<le> fact i" by simp
      then have "1 * real (Suc i) \<le> fact i * real (2 * i + 1)"
        by (intro mult_mono) auto
      then show ?thesis by simp
    qed
    ultimately have "q ^ i / (fact i * real (2 * i + 1)) \<le> 1 / real (Suc i)"
      by (intro frac_le) auto
    then show ?thesis by (simp add: a_def inverse_eq_divide)
  qed
  have a_zero: "a \<longlonglongrightarrow> 0"
  proof (rule tendsto_sandwich [OF _ _ tendsto_const LIMSEQ_inverse_real_of_nat])
    show "\<forall>\<^sub>F n in sequentially. 0 \<le> a n" by (simp add: a_nonneg)
    show "\<forall>\<^sub>F n in sequentially. a n \<le> inverse (real (Suc n))"
      using a_le by (intro always_eventually allI)
  qed
  have "a (Suc i) \<le> a i" for i
  proof -
    have "q ^ Suc i \<le> q ^ i" using q by (simp add: mult_left_le_one_le)
    moreover have "fact i * real (2 * i + 1) \<le> fact (Suc i) * real (2 * Suc i + 1)"
      by (intro mult_mono) (auto simp: fact_mono)
    moreover have "0 < fact i * real (2 * i + 1)" by simp
    ultimately show ?thesis
      unfolding a_def using q by (intro frac_le) auto
  qed
  then have mono: "monoseq a"
    by (intro decseq_imp_monoseq decseq_SucI)
  have a0: "0 < a 0" by (simp add: a_def)
  have summ: "summable (\<lambda>i. (- 1) ^ i * a i)"
    by (rule summable_Leibniz(1) [OF a_zero mono])
  have bounds: "(\<Sum>i. (- 1) ^ i * a i) \<in> {\<Sum>i<2 * n. (- 1) ^ i * a i .. \<Sum>i<2 * n + 1. (- 1) ^ i * a i}"
    using summable_Leibniz(2) [OF a_zero mono] a0 by blast
  have "Phi_series x = (\<Sum>i. x * ((- 1) ^ i * a i))"
    unfolding Phi_series_def a_def q_def by (simp only: Phi_series_term)
  also have "\<dots> = x * (\<Sum>i. (- 1) ^ i * a i)"
    by (rule suminf_mult [OF summ])
  finally have eq: "Phi_series x = x * (\<Sum>i. (- 1) ^ i * a i)" .
  show "x * (\<Sum>i<2 * n. (- 1) ^ i * ((x\<^sup>2 / 2) ^ i / (fact i * real (2 * i + 1)))) \<le> Phi_series x"
    unfolding eq using bounds assms(1) by (auto simp: a_def q_def intro!: mult_left_mono)
  show "Phi_series x \<le> x * (\<Sum>i<2 * n + 1. (- 1) ^ i * ((x\<^sup>2 / 2) ^ i / (fact i * real (2 * i + 1))))"
    unfolding eq using bounds assms(1) by (auto simp: a_def q_def intro!: mult_left_mono)
qed

lemma partial_sum_8:
  "7489 / 10000 \<le> (\<Sum>i<8. (- 1) ^ i * ((90 / 91 :: real) ^ i / (fact i * real (2 * i + 1))))"
  by (simp add: lessThan_nat_numeral fact_numeral power_divide)

lemma partial_sum_9:
  "(\<Sum>i<9. (- 1) ^ i * ((90 / 91 :: real) ^ i / (fact i * real (2 * i + 1)))) \<le> 74892 / 100000"
  by (simp add: lessThan_nat_numeral fact_numeral power_divide)

lemma cos_poly_bounds:
  fixes x :: real
  assumes "0 < x"
  shows "\<bar>cos x - (\<Sum>m<12. cos_coeff m * x ^ m)\<bar> \<le> x ^ 12 / fact 12"
proof -
  obtain t where t: "cos x = (\<Sum>m<12. cos_coeff m * x ^ m) + (cos (t + 1/2 * real 12 * pi) / fact 12) * x ^ 12"
    using Maclaurin_cos_expansion2 [OF assms, of 12] by auto
  have "\<bar>cos x - (\<Sum>m<12. cos_coeff m * x ^ m)\<bar> = \<bar>cos (t + 1/2 * real 12 * pi)\<bar> * (x ^ 12 / fact 12)"
    using assms by (simp add: t abs_mult)
  also have "\<dots> \<le> 1 * (x ^ 12 / fact 12)"
    by (rule mult_right_mono) (use assms in auto)
  finally show ?thesis by simp
qed

lemma cos_poly_eval:
  fixes x :: real
  shows "(\<Sum>m<12. cos_coeff m * x ^ m) =
     1 - x^2 / 2 + x^4 / 24 - x^6 / 720 + x^8 / 40320 - x^10 / 3628800"
  by (simp add: cos_coeff_def lessThan_nat_numeral fact_numeral)

lemma pi_lower: "314 / 100 < pi"
proof -
  let ?x = "157 / 100 :: real"
  have "\<bar>cos ?x - (\<Sum>m<12. cos_coeff m * ?x ^ m)\<bar> \<le> ?x ^ 12 / fact 12"
    by (rule cos_poly_bounds) simp
  then have "(\<Sum>m<12. cos_coeff m * ?x ^ m) - ?x ^ 12 / fact 12 \<le> cos ?x" by linarith
  moreover have "0 < (\<Sum>m<12. cos_coeff m * ?x ^ m) - ?x ^ 12 / fact 12"
    unfolding cos_poly_eval by (simp add: fact_numeral power_divide)
  ultimately have pos: "0 < cos ?x" by linarith
  show ?thesis
  proof (rule ccontr)
    assume "\<not> 314 / 100 < pi"
    then have "pi / 2 \<le> ?x" by simp
    moreover have "?x \<le> pi" using pi_ge_two by simp
    ultimately have "cos ?x \<le> cos (pi / 2)"
      by (intro cos_monotone_0_pi_le) (use pi_gt_zero in auto)
    then show False using pos by simp
  qed
qed

lemma pi_upper: "pi < 315 / 100"
proof -
  let ?x = "1575 / 1000 :: real"
  have "\<bar>cos ?x - (\<Sum>m<12. cos_coeff m * ?x ^ m)\<bar> \<le> ?x ^ 12 / fact 12"
    by (rule cos_poly_bounds) simp
  then have "cos ?x \<le> (\<Sum>m<12. cos_coeff m * ?x ^ m) + ?x ^ 12 / fact 12" by linarith
  moreover have "(\<Sum>m<12. cos_coeff m * ?x ^ m) + ?x ^ 12 / fact 12 < 0"
    unfolding cos_poly_eval by (simp add: fact_numeral power_divide)
  ultimately have neg: "cos ?x < 0" by linarith
  show ?thesis
  proof (rule ccontr)
    assume "\<not> pi < 315 / 100"
    then have "?x \<le> pi / 2" by simp
    moreover have "pi / 2 \<le> pi" using pi_gt_zero by simp
    ultimately have "cos (pi / 2) \<le> cos ?x"
      by (intro cos_monotone_0_pi_le) auto
    then show False using neg by simp
  qed
qed

lemma sqrt_two_pi_bounds: "25059 / 10000 < sqrt (2 * pi)" "sqrt (2 * pi) < 251 / 100"
proof -
  have "(25059 / 10000)\<^sup>2 < 2 * pi" using pi_lower by (simp add: power2_eq_square)
  then show "25059 / 10000 < sqrt (2 * pi)" by (rule real_less_rsqrt)
  have "2 * pi < (251 / 100)\<^sup>2" using pi_upper by (simp add: power2_eq_square)
  then show "sqrt (2 * pi) < 251 / 100" by (intro real_less_lsqrt) auto
qed

lemma scenario1_z: "z_statistic (8, 5) (10, 10) = sqrt (180 / 91)"
proof -
  have "sqrt (180 / 91) = sqrt ((3 / 10)\<^sup>2 / (91 / 2000))"
    by (simp add: power2_eq_square)
  also have "\<dots> = \<bar>3 / 10\<bar> / sqrt (91 / 2000)"
    by (simp only: real_sqrt_divide real_sqrt_abs)
  finally show ?thesis by (simp add: z_statistic_def scenario1_SE)
qed

lemma scenario1_z_bounds:
  "14064 / 10000 < z_statistic (8, 5) (10, 10)" "z_statistic (8, 5) (10, 10) < 14065 / 10000"
  unfolding scenario1_z
  by (rule real_less_rsqrt, simp add: power2_eq_square) (rule real_less_lsqrt, simp_all add: power2_eq_square)

lemma scenario1_series_bounds:
  "105325 / 100000 \<le> Phi_series (z_statistic (8, 5) (10, 10))"
  "Phi_series (z_statistic (8, 5) (10, 10)) \<le> 105336 / 100000"
proof -
  let ?z = "z_statistic (8, 5) (10, 10)"
  have z0: "0 \<le> ?z" using scenario1_z_bounds(1) by simp
  have z2: "?z\<^sup>2 = 180 / 91" by (simp add: scenario1_z)
  then have z2le: "?z\<^sup>2 \<le> 2" by simp
  have q: "?z\<^sup>2 / 2 = 90 / 91" by (simp add: z2)
  have lo: "?z * (\<Sum>i<8. (- 1) ^ i * ((90 / 91) ^ i / (fact i * real (2 * i + 1)))) \<le> Phi_series ?z"
    using Phi_series_Leibniz(1) [OF z0 z2le, of 4] by (simp only: q) simp
  have hi: "Phi_series ?z \<le> ?z * (\<Sum>i<9. (- 1) ^ i * ((90 / 91) ^ i / (fact i * real (2 * i + 1))))"
    using Phi_series_Leibniz(2) [OF z0 z2le, of 4] by (simp only: q) simp
  have "105325 / 100000 \<le> (14064 / 10000) * (7489 / 10000 :: real)" by simp
  also have "\<dots> \<le> ?z * (\<Sum>i<8. (- 1) ^ i * ((90 / 91) ^ i / (fact i * real (2 * i + 1))))"
    using scenario1_z_bounds(1) partial_sum_8 by (intro mult_mono) auto
  finally show "105325 / 100000 \<le> Phi_series ?z" using lo by linarith
  have s9: "0 \<le> (\<Sum>i<9. (- 1) ^ i * ((90 / 91 :: real) ^ i / (fact i * real (2 * i + 1))))"
    using Phi_series_Leibniz(1) [OF z0 z2le, of 4] hi lo partial_sum_8
    by (simp add: lessThan_nat_numeral fact_numeral power_divide)
  have "?z * (\<Sum>i<9. (- 1) ^ i * ((90 / 91) ^ i / (fact i * real (2 * i + 1)))) \<le> (14065 / 10000) * (74892 / 100000)"
    using scenario1_z_bounds(2) partial_sum_9 s9 z0 by (intro mult_mono) auto
  also have "\<dots> \<le> (105336 / 100000 :: real)" by simp
  finally show "Phi_series ?z \<le> 105336 / 100000" using hi by linarith
qed

lemma scenario1_p_bounds:
  "159 / 1000 < normal_p_value (z_statistic (8, 5) (10, 10))"
  "normal_p_value (z_statistic (8, 5) (10, 10)) < 161 / 1000"
proof -
  let ?z = "z_statistic (8, 5) (10, 10)"
  let ?S = "Phi_series ?z" and ?s = "sqrt (2 * pi)"
  have z0: "0 \<le> ?z" using scenario1_z_bounds(1) by simp
  have p: "normal_p_value ?z = 1 - 2 * (?S / ?s)"
    using z0 by (simp add: normal_p_value_def Phi_def)
  have s: "0 < ?s" using sqrt_two_pi_bounds(1) by linarith
  have "(105325 / 100000) / (251 / 100) \<le> ?S / ?s"
    using scenario1_series_bounds(1) sqrt_two_pi_bounds(2) s by (intro frac_le) auto
  then show "normal_p_value ?z < 161 / 1000" unfolding p by simp
  have "?S / ?s \<le> (105336 / 100000) / (25059 / 10000)"
    using scenario1_series_bounds sqrt_two_pi_bounds(1) by (intro frac_le) auto
  then show "159 / 1000 < normal_p_value ?z" unfolding p by simp
qed

subsection \<open>Student's distribution function for 8 degrees of freedom\<close>

lemma const_limits_zero:
  fixes H :: "real \<Rightarrow> real"
  assumes "\<forall>x. (H has_real_derivative 0) (at x)" and "(H \<longlongrightarrow> l) at_bot"
  shows "H x = l"
proof -
  have eq: "H y = H x" for y using DERIV_isconst_all [OF assms(1)] by blast
  have ev: "\<forall>\<^sub>F y in at_bot. H x = H y"
    by (rule always_eventually, rule allI, rule eq [symmetric])
  have "(H \<longlongrightarrow> H x) at_bot"
    by (rule Lim_transform_eventually [OF tendsto_const ev])
  then show ?thesis
    using tendsto_unique [OF trivial_limit_at_bot_linorder _ assms(2)] by blast
qed

lemma const_limits_top:
  fixes H :: "real \<Rightarrow> real"
  assumes "\<forall>x. (H has_real_derivative 0) (at x)" and "(H \<longlongrightarrow> l) at_top"
  shows "H x = l"
proof -
  have eq: "H y = H x" for y using DERIV_isconst_all [OF assms(1)] by blast
  have ev: "\<forall>\<^sub>F y in at_top. H x = H y"
    by (rule always_eventually, rule allI, rule eq [symmetric])
  have "(H \<longlongrightarrow> H x) at_top"
    by (rule Lim_transform_eventually [OF tendsto_const ev])
  then show ?thesis
    using tendsto_unique [OF trivial_limit_at_top_linorder _ assms(2)] by blast
qed

lemma is_t_cdf_unique:
  assumes F: "is_t_cdf df F" and G: "is_t_cdf df G"
  shows "F = G"
proof -
  obtain c1 where c1: "\<forall>x. (F has_real_derivative c1 * t_kernel df x) (at x)"
    using F by (auto simp: is_t_cdf_def)
  obtain c2 where c2: "\<forall>x. (G has_real_derivative c2 * t_kernel df x) (at x)"
    using G by (auto simp: is_t_cdf_def)
  have Fl: "(F \<longlongrightarrow> 0) at_bot" "(F \<longlongrightarrow> 1) at_top"
    and Gl: "(G \<longlongrightarrow> 0) at_bot" "(G \<longlongrightarrow> 1) at_top"
    using F G by (auto simp: is_t_cdf_def)
  let ?H = "\<lambda>x. c2 * F x - c1 * G x"
  have dH: "\<forall>x. (?H has_real_derivative 0) (at x)"
  proof
    fix x
    have "(?H has_real_derivative c2 * (c1 * t_kernel df x) - c1 * (c2 * t_kernel df x)) (at x)"
      by (intro DERIV_diff DERIV_cmult c1 [rule_format] c2 [rule_format])
    then show "(?H has_real_derivative 0) (at x)" by simp
  qed
  have "(?H \<longlongrightarrow> c2 * 0 - c1 * 0) at_bot"
    by (intro tendsto_intros Fl Gl)
  then have lim0: "(?H \<longlongrightarrow> 0) at_bot" by simp
  have H0: "?H 0 = 0" by (rule const_limits_zero [OF dH lim0])
  have "(?H \<longlongrightarrow> c2 * 1 - c1 * 1) at_top"
    by (intro tendsto_intros Fl Gl)
  then have lim1: "(?H \<longlongrightarrow> c2 - c1) at_top" by simp
  have "?H 0 = c2 - c1" by (rule const_limits_top [OF dH lim1])
  then have c: "c2 = c1" using H0 by simp
  let ?D = "\<lambda>x. F x - G x"
  have dD: "\<forall>x. (?D has_real_derivative 0) (at x)"
  proof
    fix x
    have "(?D has_real_derivative c1 * t_kernel df x - c2 * t_kernel df x) (at x)"
      by (intro DERIV_diff c1 [rule_format] c2 [rule_format])
    then show "(?D has_real_derivative 0) (at x)" by (simp add: c)
  qed
  have "(?D \<longlongrightarrow> 0 - 0) at_bot"
    by (intro tendsto_intros Fl Gl)
  then have limD: "(?D \<longlongrightarrow> 0) at_bot" by simp
  have "?D x = 0" for x by (rule const_limits_zero [OF dD limD])
  then show ?thesis by auto
qed

lemma t_cdf_eq: "is_t_cdf df F \<Longrightarrow> t_cdf df = F"
  unfolding t_cdf_def by (rule the_equality) (auto intro: is_t_cdf_unique)

lemma t8_inv_root_pos: "0 < t8_inv_root x"
proof -
  have "0 < 8 + x\<^sup>2" by (rule add_pos_nonneg) simp_all
  then show ?thesis by (simp add: t8_inv_root_def)
qed

lemma t8_inv_root_sq: "(t8_inv_root x)\<^sup>2 * (8 + x\<^sup>2) = 1"
proof -
  have w: "0 < 8 + x\<^sup>2" by (rule add_pos_nonneg) simp_all
  have "(t8_inv_root x)\<^sup>2 = inverse (8 + x\<^sup>2)"
    using w by (simp add: t8_inv_root_def power_inverse)
  then show ?thesis using w by simp
qed

lemma DERIV_t8_inv_root: "(t8_inv_root has_real_derivative - x * t8_inv_root x ^ 3) (at x)"
proof -
  have w: "0 < 8 + x\<^sup>2" by (rule add_pos_nonneg) simp_all
  have "((\<lambda>x. inverse (sqrt (8 + x\<^sup>2))) has_real_derivative
          - (inverse (sqrt (8 + x\<^sup>2)) * ((2 * x) * (inverse (sqrt (8 + x\<^sup>2)) / 2)) * inverse (sqrt (8 + x\<^sup>2)))) (at x)"
    using w by (auto intro!: derivative_eq_intros)
  moreover have "- (inverse (sqrt (8 + x\<^sup>2)) * ((2 * x) * (inverse (sqrt (8 + x\<^sup>2)) / 2)) * inverse (sqrt (8 + x\<^sup>2)))
      = - x * t8_inv_root x ^ 3"
    by (simp add: t8_inv_root_def power3_eq_cube)
  moreover have "(\<lambda>x. inverse (sqrt (8 + x\<^sup>2))) = t8_inv_root" by (auto simp: t8_inv_root_def)
  ultimately show ?thesis by (simp only:)
qed

lemma t8_poly:
  fixes r :: real
  shows "(r / 2 + 2 * r ^ 3 + 12 * r ^ 5 + 80 * r ^ 7)
          + - (1 - 8 * r\<^sup>2) * (r * (1 / 2 + 6 * r ^ 2 + 60 * r ^ 4 + 560 * r ^ 6)) = 4480 * r ^ 9"
  by (simp add: eval_nat_numeral algebra_simps)

lemma DERIV_t8_closed: "(t8_closed has_real_derivative 4480 * t8_inv_root x ^ 9) (at x)"
proof -
  let ?r = "t8_inv_root x"
  have "((\<lambda>x. 1 / 2 + x * (t8_inv_root x / 2 + 2 * t8_inv_root x ^ 3 + 12 * t8_inv_root x ^ 5 + 80 * t8_inv_root x ^ 7)) has_real_derivative
          (?r / 2 + 2 * ?r ^ 3 + 12 * ?r ^ 5 + 80 * ?r ^ 7)
          + x * ((- x * ?r ^ 3) * (1 / 2 + 6 * ?r ^ 2 + 60 * ?r ^ 4 + 560 * ?r ^ 6))) (at x)"
    by (auto intro!: derivative_eq_intros DERIV_t8_inv_root simp: field_simps)
  moreover have "(?r / 2 + 2 * ?r ^ 3 + 12 * ?r ^ 5 + 80 * ?r ^ 7)
          + x * ((- x * ?r ^ 3) * (1 / 2 + 6 * ?r ^ 2 + 60 * ?r ^ 4 + 560 * ?r ^ 6)) = 4480 * ?r ^ 9"
  proof -
    have k: "x\<^sup>2 * ?r\<^sup>2 = 1 - 8 * ?r\<^sup>2" using t8_inv_root_sq [of x] by (simp add: algebra_simps)
    have "x * ((- x * ?r ^ 3) * (1 / 2 + 6 * ?r ^ 2 + 60 * ?r ^ 4 + 560 * ?r ^ 6))
        = - (x\<^sup>2 * ?r\<^sup>2) * (?r * (1 / 2 + 6 * ?r ^ 2 + 60 * ?r ^ 4 + 560 * ?r ^ 6))"
      by (simp add: power2_eq_square power3_eq_cube)
    also have "\<dots> = - (1 - 8 * ?r\<^sup>2) * (?r * (1 / 2 + 6 * ?r ^ 2 + 60 * ?r ^ 4 + 560 * ?r ^ 6))"
      by (simp only: k)
    finally have e: "x * ((- x * ?r ^ 3) * (1 / 2 + 6 * ?r ^ 2 + 60 * ?r ^ 4 + 560 * ?r ^ 6))
        = - (1 - 8 * ?r\<^sup>2) * (?r * (1 / 2 + 6 * ?r ^ 2 + 60 * ?r ^ 4 + 560 * ?r ^ 6))" .
    show ?thesis unfolding e by (rule t8_poly)
  qed
  moreover have "(\<lambda>x. 1 / 2 + x * (t8_inv_root x / 2 + 2 * t8_inv_root x ^ 3 + 12 * t8_inv_root x ^ 5 + 80 * t8_inv_root x ^ 7)) = t8_closed"
    by (auto simp: t8_closed_def)
  ultimately show ?thesis by (simp only:)
qed

lemma sqrt_pow9: "0 \<le> a \<Longrightarrow> sqrt a ^ 9 = a ^ 4 * sqrt a"
proof -
  assume a: "0 \<le> a"
  have "sqrt a ^ 9 = sqrt a ^ (2 * 4 + 1)" by simp
  also have "\<dots> = ((sqrt a)\<^sup>2) ^ 4 * sqrt a"
    by (simp only: power_add power_mult power_one_right)
  also have "\<dots> = a ^ 4 * sqrt a" using a by simp
  finally show ?thesis .
qed

lemma t_kernel_8: "4480 * t8_inv_root x ^ 9 = 35 / (32 * sqrt 8) * t_kernel 8 x"
proof -
  define w where "w = 1 + x\<^sup>2 / 8"
  have w: "0 < w" unfolding w_def by (rule add_pos_nonneg) simp_all
  have "w powr (9 / 2) = w powr (4 + 1 / 2)" by simp
  also have "\<dots> = w ^ 4 * sqrt w"
    using w by (simp only: powr_add) (simp add: powr_half_sqrt)
  finally have p: "w powr (9 / 2) = w ^ 4 * sqrt w" .
  have k: "t_kernel 8 x = inverse (w ^ 4 * sqrt w)"
    by (simp add: t_kernel_def w_def [symmetric] powr_minus p)
  have "8 + x\<^sup>2 = 8 * w" by (simp add: w_def)
  then have "t8_inv_root x = inverse (sqrt 8 * sqrt w)"
    by (simp add: t8_inv_root_def real_sqrt_mult)
  then have "t8_inv_root x ^ 9 = inverse (sqrt 8 ^ 9 * sqrt w ^ 9)"
    by (simp add: power_inverse power_mult_distrib)
  also have "\<dots> = inverse ((8 ^ 4 * sqrt 8) * (w ^ 4 * sqrt w))"
    using w by (simp only: sqrt_pow9 [of 8] sqrt_pow9 [of w])
  finally show ?thesis using w by (simp add: k field_simps)
qed

lemma t8_inv_root_tendsto_0: "(t8_inv_root \<longlongrightarrow> 0) at_top"
proof -
  have "LIM x at_top. 8 + x\<^sup>2 :: real :> at_top"
    by (intro filterlim_tendsto_add_at_top [OF tendsto_const] filterlim_pow_at_top filterlim_ident) simp
  then have "LIM x at_top. sqrt (8 + x\<^sup>2) :: real :> at_top"
    by (rule filterlim_compose [OF sqrt_at_top])
  then have "((\<lambda>x. inverse (sqrt (8 + x\<^sup>2))) \<longlongrightarrow> 0) at_top"
    by (rule tendsto_inverse_0_at_top)
  moreover have "(\<lambda>x. inverse (sqrt (8 + x\<^sup>2))) = t8_inv_root" by (auto simp: t8_inv_root_def)
  ultimately show ?thesis by (simp only:)
qed

lemma t8_x_inv_root_tendsto_1: "((\<lambda>x. x * t8_inv_root x) \<longlongrightarrow> 1) at_top"
proof -
  have "((\<lambda>x::real. inverse (sqrt (8 * (inverse x)\<^sup>2 + 1))) \<longlongrightarrow> inverse (sqrt (8 * 0\<^sup>2 + 1))) at_top"
    by (intro tendsto_intros tendsto_inverse_0_at_top filterlim_ident) simp
  then have lim: "((\<lambda>x::real. inverse (sqrt (8 * (inverse x)\<^sup>2 + 1))) \<longlongrightarrow> 1) at_top"
    by simp
  have "\<forall>\<^sub>F x in at_top. inverse (sqrt (8 * (inverse x)\<^sup>2 + 1)) = x * t8_inv_root x"
    using eventually_gt_at_top [of "0::real"]
  proof eventually_elim
    case (elim x)
    have "8 + x\<^sup>2 = x\<^sup>2 * (8 * (inverse x)\<^sup>2 + 1)"
      using elim by (simp add: field_simps)
    then have "sqrt (8 + x\<^sup>2) = x * sqrt (8 * (inverse x)\<^sup>2 + 1)"
      using elim by (simp add: real_sqrt_mult)
    then show ?case using elim by (simp add: t8_inv_root_def)
  qed
  then show ?thesis by (rule Lim_transform_eventually [OF lim])
qed

lemma t8_closed_alt:
  "t8_closed x = 1 / 2 + (x * t8_inv_root x) * (1 / 2 + 2 * t8_inv_root x ^ 2 + 12 * t8_inv_root x ^ 4 + 80 * t8_inv_root x ^ 6)"
  by (simp add: t8_closed_def eval_nat_numeral algebra_simps)

lemma t8_closed_at_top: "(t8_closed \<longlongrightarrow> 1) at_top"
proof -
  have "((\<lambda>x. 1 / 2 + (x * t8_inv_root x) * (1 / 2 + 2 * t8_inv_root x ^ 2 + 12 * t8_inv_root x ^ 4 + 80 * t8_inv_root x ^ 6))
          \<longlongrightarrow> 1 / 2 + 1 * (1 / 2 + 2 * 0 ^ 2 + 12 * 0 ^ 4 + 80 * 0 ^ 6)) at_top"
    by (intro tendsto_intros t8_x_inv_root_tendsto_1 t8_inv_root_tendsto_0)
  moreover have "(\<lambda>x. 1 / 2 + (x * t8_inv_root x) * (1 / 2 + 2 * t8_inv_root x ^ 2 + 12 * t8_inv_root x ^ 4 + 80 * t8_inv_root x ^ 6)) = t8_closed"
    by (auto simp: t8_closed_alt)
  ultimately show ?thesis by simp
qed

lemma t8_closed_minus: "t8_closed (- x) = 1 - t8_closed x"
  by (simp add: t8_closed_def t8_inv_root_def)

lemma t8_closed_at_bot: "(t8_closed \<longlongrightarrow> 0) at_bot"
proof -
  have "((\<lambda>x. 1 - t8_closed x) \<longlongrightarrow> 1 - 1) at_top"
    by (intro tendsto_intros t8_closed_at_top)
  then have "((\<lambda>x. t8_closed (- x)) \<longlongrightarrow> 0) at_top"
    by (simp add: t8_closed_minus)
  then show ?thesis by (simp add: filterlim_at_bot_mirror)
qed

lemma is_t_cdf_8: "is_t_cdf 8 t8_closed"
  unfolding is_t_cdf_def
proof (intro conjI exI allI)
  fix x
  show "(t8_closed has_real_derivative 35 / (32 * sqrt 8) * t_kernel 8 x) (at x)"
    using DERIV_t8_closed [of x] by (simp only: t_kernel_8)
qed (rule t8_closed_at_bot, rule t8_closed_at_top)


lemma t_cdf_8: "t_cdf 8 = t8_closed"
  by (rule t_cdf_eq [OF is_t_cdf_8])

lemma t8_inv_root_10_bounds: "10000 / 103924 < t8_inv_root 10" "t8_inv_root 10 < 10000 / 103923"
proof -
  have "sqrt 108 < 103924 / 10000"
    by (rule real_less_lsqrt) (simp_all add: power2_eq_square)
  then have "inverse (103924 / 10000) < inverse (sqrt 108)"
    by (rule less_imp_inverse_less) simp
  then show "10000 / 103924 < t8_inv_root 10" by (simp add: t8_inv_root_def)
  have "103923 / 10000 < sqrt 108"
    by (rule real_less_rsqrt) (simp add: power2_eq_square)
  then have "inverse (sqrt 108) < inverse (103923 / 10000)"
    by (rule less_imp_inverse_less) simp
  then show "t8_inv_root 10 < 10000 / 103923" by (simp add: t8_inv_root_def)
qed

lemma t8_closed_10: "t8_closed 10 = 1 / 2 + 10 * t8_inv_root 10 * (20455 / 39366)"
proof -
  have r2: "(t8_inv_root 10)\<^sup>2 = 1 / 108" using t8_inv_root_sq [of 10] by simp
  have r4: "t8_inv_root 10 ^ 4 = (1 / 108)\<^sup>2"
  proof -
    have "t8_inv_root 10 ^ 4 = ((t8_inv_root 10)\<^sup>2)\<^sup>2" by (simp add: power_mult [symmetric])
    then show ?thesis by (simp only: r2)
  qed
  have r6: "t8_inv_root 10 ^ 6 = (1 / 108) ^ 3"
  proof -
    have "t8_inv_root 10 ^ 6 = ((t8_inv_root 10)\<^sup>2) ^ 3" by (simp add: power_mult [symmetric])
    then show ?thesis by (simp only: r2)
  qed
  show ?thesis
    unfolding t8_closed_alt r2 r4 r6 by (simp add: power_divide)
qed

lemma example_t_p_value:
  "0 < t_p_value 8 (- 10)" "t_p_value 8 (- 10) < 1 / 1000"
proof -
  have p: "t_p_value 8 (- 10) = 1 - 20 * t8_inv_root 10 * (20455 / 39366)"
    by (simp add: t_p_value_def t_cdf_8 t8_closed_10)
  show "0 < t_p_value 8 (- 10)" unfolding p using t8_inv_root_10_bounds(2) by simp
  show "t_p_value 8 (- 10) < 1 / 1000" unfolding p using t8_inv_root_10_bounds(1) by simp
qed

subsection \<open>Equal raw values and the two tests\<close>









lemma sum_list_real_of_int:
  "sum_list (map (\<lambda>r. real_of_int (f r)) rs) = real_of_int (sum_list (map f rs))"
  by (induction rs) simp_all

lemma analysis_report:
  assumes "group_rows df ''A'' \<noteq> []" and "group_rows df ''B'' \<noteq> []"
  shows "\<exists>rep. analysis ztest ttest df = Inr rep \<and>
     Renewal_Rate (stats_A rep) =
       real_of_int (sum_list (map Renewal_Status (group_rows df ''A''))) / real (length (group_rows df ''A'')) \<and>
     Renewal_Rate (stats_B rep) =
       real_of_int (sum_list (map Renewal_Status (group_rows df ''B''))) / real (length (group_rows df ''B'')) \<and>
     Avg_Discounted_ARR (stats_A rep) = mean (map Discounted_ARR (group_rows df ''A'')) \<and>
     Avg_Discounted_ARR (stats_B rep) = mean (map Discounted_ARR (group_rows df ''B'')) \<and>
     ztest_result rep =
       ztest (sum_list (map Renewal_Status (group_rows df ''A'')), sum_list (map Renewal_Status (group_rows df ''B'')))
             (length (group_rows df ''A''), length (group_rows df ''B'')) \<and>
     ttest_result rep =
       ttest (map Discounted_ARR (group_rows df ''A'')) (map Discounted_ARR (group_rows df ''B'')) \<and>
     ztest_conclusion rep = dynamic_conclusion ALPHA (snd (ztest_result rep)) \<and>
     ttest_conclusion rep = dynamic_conclusion ALPHA (snd (ttest_result rep)) \<and>
     recommended rep =
       final_recommendation ALPHA (snd (ztest_result rep)) (snd (ttest_result rep))
         (Renewal_Rate (stats_A rep)) (Renewal_Rate (stats_B rep))
         (Avg_Discounted_ARR (stats_A rep)) (Avg_Discounted_ARR (stats_B rep))"
  using assms data_quality_checks_present [OF assms]
  by (simp add: analysis_def grouped_stats_def getitem_def Let_def mean_def sum_list_real_of_int)




lemma scenario1_groups_counts:
  "sum_list (map Renewal_Status (group_rows scenario1_groups ''A'')) = 8"
  "sum_list (map Renewal_Status (group_rows scenario1_groups ''B'')) = 5"
  "length (group_rows scenario1_groups ''A'') = 10"
  "length (group_rows scenario1_groups ''B'') = 10"
  by (simp_all add: scenario1_groups_def group_rows_def customer_def)

section \<open>Verdict\<close>



text \<open>
  C2. When both p-values are below the threshold and the group with the higher raw
  renewal rate is not the group with the higher raw average ARR, the recommendation is
  the mixed one (conflicting winners); in particular no group is declared the winner.
\<close>

theorem conflicting_winners_mixed:
  assumes "p_value_prop < alpha" and "p_value_arr < alpha"
    and "(raw_renewal_A > raw_renewal_B \<and> raw_arr_B > raw_arr_A) \<or>
         (raw_renewal_B > raw_renewal_A \<and> raw_arr_A > raw_arr_B)"
  shows "final_recommendation alpha p_value_prop p_value_arr
           raw_renewal_A raw_renewal_B raw_arr_A raw_arr_B = Mixed \<and>
         (\<forall>g. final_recommendation alpha p_value_prop p_value_arr
                raw_renewal_A raw_renewal_B raw_arr_A raw_arr_B \<noteq> Clear_Winner g)"
  using assms
  by (auto simp: final_recommendation_def renewal_is_significant_def arr_is_significant_def)

theorem conflicting_winners_mixed_witness:
  "final_recommendation (5 / 100) (1 / 100) (2 / 100) (4 / 5) (1 / 2) 90 110 = Mixed \<and>
   final_recommendation (5 / 100) (1 / 100) (2 / 100) (1 / 2) (4 / 5) 110 90 = Mixed"
  using conflicting_winners_mixed [of "1 / 100" "5 / 100" "2 / 100" "4 / 5" "1 / 2" 110 90]
        conflicting_winners_mixed [of "1 / 100" "5 / 100" "2 / 100" "1 / 2" "4 / 5" 90 110]
  by simp

section \<open>Significance threshold\<close>

text \<open>
  C5, as the code has it. The script has no threshold that a caller supplies: in every
  completed run, whatever the table and the two tests are, the conclusion printed after
  each test and the significance that the final recommendation presents for it are the
  strict comparison of the p-value that the test returns on the two groups with the
  module constant \<open>ALPHA\<close>, which is 0.05. A p-value equal to 0.05 is therefore not significant. The verdict logic names
  the constant and repeats no literal.
\<close>

theorem threshold_is_constant_ALPHA:
  assumes "analysis ztest ttest df = Inr rep"
  shows "ALPHA = 5 / 100 \<and>
     ztest_result rep =
       ztest (sum_list (map Renewal_Status (group_rows df ''A'')),
              sum_list (map Renewal_Status (group_rows df ''B'')))
             (length (group_rows df ''A''), length (group_rows df ''B'')) \<and>
     ttest_result rep =
       ttest (map Discounted_ARR (group_rows df ''A'')) (map Discounted_ARR (group_rows df ''B'')) \<and>
     (ztest_conclusion rep = REJECT) = (snd (ztest_result rep) < 5 / 100) \<and>
     (ttest_conclusion rep = REJECT) = (snd (ttest_result rep) < 5 / 100) \<and>
     shows_renewal_significant (recommended rep) = (snd (ztest_result rep) < 5 / 100) \<and>
     shows_arr_significant (recommended rep) = (snd (ttest_result rep) < 5 / 100)"
  using assms
  by (auto simp: analysis_def Let_def dynamic_conclusion_def final_recommendation_def
        renewal_is_significant_def arr_is_significant_def ALPHA_def split: sum.splits if_splits)

theorem threshold_is_constant_ALPHA_witness:
  "\<exists>rep. analysis boundary_ztest fixed_ttest two_groups = Inr rep \<and>
     snd (ztest_result rep) = 5 / 100 \<and>
     ztest_conclusion rep = FAIL_TO_REJECT \<and> \<not> shows_renewal_significant (recommended rep) \<and>
     ttest_conclusion rep = FAIL_TO_REJECT \<and> \<not> shows_arr_significant (recommended rep)"
proof -
  have present: "group_rows two_groups ''A'' \<noteq> []" "group_rows two_groups ''B'' \<noteq> []"
    by (simp_all add: two_groups_def customer_def group_rows_def)
  obtain rep where run: "analysis boundary_ztest fixed_ttest two_groups = Inr rep"
    and zr: "ztest_result rep =
       boundary_ztest (sum_list (map Renewal_Status (group_rows two_groups ''A'')),
                       sum_list (map Renewal_Status (group_rows two_groups ''B'')))
                      (length (group_rows two_groups ''A''), length (group_rows two_groups ''B''))"
    and tr: "ttest_result rep =
       fixed_ttest (map Discounted_ARR (group_rows two_groups ''A''))
                   (map Discounted_ARR (group_rows two_groups ''B''))"
    using analysis_report [OF present, of boundary_ztest fixed_ttest] by blast
  have z: "snd (ztest_result rep) = 5 / 100" by (simp add: zr boundary_ztest_def)
  have t: "snd (ttest_result rep) = 1 / 2" by (simp add: tr fixed_ttest_def)
  have "ztest_conclusion rep \<noteq> REJECT" "ttest_conclusion rep \<noteq> REJECT"
    "\<not> shows_renewal_significant (recommended rep)" "\<not> shows_arr_significant (recommended rep)"
    using threshold_is_constant_ALPHA [OF run] by (simp_all add: z t)
  then show ?thesis
    using run z by (cases "ztest_conclusion rep"; cases "ttest_conclusion rep") auto
qed

text \<open>
  C5, as the specification states it, fails: a caller cannot supply the threshold. On
  the table of scenario 1 the p-value of the proportion test is below 0.2, and still the
  run concludes that the difference is not significant, since it compares with 0.05.
\<close>

theorem caller_threshold_counterexample:
  "\<not> isl scenario1_run \<and>
   snd (ztest_result (projr scenario1_run)) < 2 / 10 \<and>
   ztest_conclusion (projr scenario1_run) = FAIL_TO_REJECT \<and>
   \<not> shows_renewal_significant (recommended (projr scenario1_run))"
proof -
  have present: "group_rows scenario1_groups ''A'' \<noteq> []" "group_rows scenario1_groups ''B'' \<noteq> []"
    using scenario1_groups_counts(3,4) by auto
  obtain rep where run: "analysis library_ztest library_ttest scenario1_groups = Inr rep"
    and zr: "ztest_result rep =
       library_ztest (sum_list (map Renewal_Status (group_rows scenario1_groups ''A'')),
                      sum_list (map Renewal_Status (group_rows scenario1_groups ''B'')))
                     (length (group_rows scenario1_groups ''A''), length (group_rows scenario1_groups ''B''))"
    and zc: "ztest_conclusion rep = dynamic_conclusion ALPHA (snd (ztest_result rep))"
    and rc: "recommended rep =
       final_recommendation ALPHA (snd (ztest_result rep)) (snd (ttest_result rep))
         (Renewal_Rate (stats_A rep)) (Renewal_Rate (stats_B rep))
         (Avg_Discounted_ARR (stats_A rep)) (Avg_Discounted_ARR (stats_B rep))"
    using analysis_report [OF present, of library_ztest library_ttest] by blast
  have ne: "pooled_SE (8, 5) (10, 10) \<noteq> 0" using scenario1_SE_bounds(1) by simp
  have "ztest_result rep = library_ztest (8, 5) (10, 10)"
    by (simp add: zr scenario1_groups_counts)
  then have p: "snd (ztest_result rep) = normal_p_value (z_statistic (8, 5) (10, 10))"
    using ne by (simp add: library_ztest_def proportions_ztest_def)
  have lo: "\<not> snd (ztest_result rep) < ALPHA"
    unfolding p using scenario1_p_bounds(1) by (simp add: ALPHA_def)
  have hi: "snd (ztest_result rep) < 2 / 10"
    unfolding p using scenario1_p_bounds(2) by simp
  have "ztest_conclusion rep = FAIL_TO_REJECT"
    using lo by (simp add: zc dynamic_conclusion_def)
  moreover have "\<not> shows_renewal_significant (recommended rep)"
    using lo
    by (simp add: rc final_recommendation_def renewal_is_significant_def arr_is_significant_def)
  ultimately show ?thesis
    using hi run by (simp add: scenario1_run_def)
qed


text \<open>
  C10. In every completed run, the conclusion printed after a test is the rejection
  exactly when the final recommendation presents that test as significant, and both
  are the comparison of that test's p-value with \<open>ALPHA\<close>.
\<close>

theorem conclusions_agree_with_verdict:
  assumes "analysis ztest ttest df = Inr rep"
  shows "(ztest_conclusion rep = REJECT) = shows_renewal_significant (recommended rep) \<and>
         (ttest_conclusion rep = REJECT) = shows_arr_significant (recommended rep) \<and>
         (ztest_conclusion rep = REJECT) = (snd (ztest_result rep) < ALPHA) \<and>
         (ttest_conclusion rep = REJECT) = (snd (ttest_result rep) < ALPHA)"
  using assms
  by (auto simp: analysis_def Let_def dynamic_conclusion_def final_recommendation_def
        renewal_is_significant_def arr_is_significant_def split: sum.splits if_splits)

theorem conclusions_agree_with_verdict_witness:
  "\<exists>rep. analysis fixed_ztest fixed_ttest two_groups = Inr rep \<and>
     ztest_conclusion rep = REJECT \<and> shows_renewal_significant (recommended rep) \<and>
     ttest_conclusion rep = FAIL_TO_REJECT \<and> \<not> shows_arr_significant (recommended rep)"
proof -
  have present: "group_rows two_groups ''A'' \<noteq> []" "group_rows two_groups ''B'' \<noteq> []"
    by (simp_all add: two_groups_def customer_def group_rows_def)
  obtain rep where rep: "analysis fixed_ztest fixed_ttest two_groups = Inr rep"
    using analysis_present [OF present] by blast
  have z: "ztest_result rep = (2, 1 / 100)" and t: "ttest_result rep = (0, 1 / 2)"
    using rep present
    by (auto simp: analysis_def Let_def fixed_ztest_def fixed_ttest_def split: sum.splits)
  have "conclusion.REJECT \<noteq> FAIL_TO_REJECT" by simp
  then show ?thesis
    using conclusions_agree_with_verdict [OF rep] rep z t
    by (cases "ttest_conclusion rep") (auto simp: ALPHA_def)
qed

section \<open>Balance warning\<close>

text \<open>
  C6. When both groups have rows, the run completes with a report, and the warning is
  part of it exactly when the absolute difference of the two group counts exceeds 5% of
  the number of rows. So the warning never stops the analysis.
\<close>

theorem balance_warning_advisory:
  assumes "group_rows df ''A'' \<noteq> []" and "group_rows df ''B'' \<noteq> []"
  shows "\<exists>rep. analysis ztest ttest df = Inr rep \<and>
           balance_warning rep =
             (\<bar>real_of_int (int (length (group_rows df ''A'')) - int (length (group_rows df ''B'')))\<bar>
                > 5 / 100 * real (length df))"
proof -
  have "df \<noteq> []" using assms(1) by (auto simp: group_rows_def)
  then have pos: "0 < real (length df)" by simp
  obtain rep where rep: "analysis ztest ttest df = Inr rep"
    and w: "Inr (balance_warning rep) = data_quality_checks df"
    using analysis_present [OF assms] by blast
  have "balance_warning rep =
          (\<bar>real_of_int (int (length (group_rows df ''A'')) - int (length (group_rows df ''B'')))\<bar>
             / real (length df) > 5 / 100)"
    using w data_quality_checks_present [OF assms] by simp
  also have "\<dots> =
          (\<bar>real_of_int (int (length (group_rows df ''A'')) - int (length (group_rows df ''B'')))\<bar>
             > 5 / 100 * real (length df))"
    using pos by (simp add: field_simps)
  finally show ?thesis using rep by blast
qed

theorem balance_warning_advisory_witness:
  "(\<exists>rep. analysis fixed_ztest fixed_ttest counts_52_48 = Inr rep \<and> \<not> balance_warning rep) \<and>
   (\<exists>rep. analysis fixed_ztest fixed_ttest counts_53_47 = Inr rep \<and> balance_warning rep)"
proof -
  have a: "group_rows counts_52_48 ''A'' = replicate 52 (customer ''A'' 1 100)"
    and b: "group_rows counts_52_48 ''B'' = replicate 48 (customer ''B'' 0 90)"
    and c: "group_rows counts_53_47 ''A'' = replicate 53 (customer ''A'' 1 100)"
    and d: "group_rows counts_53_47 ''B'' = replicate 47 (customer ''B'' 0 90)"
    by (simp_all add: counts_52_48_def counts_53_47_def group_rows_append group_rows_replicate
          customer_def)
  have l: "length counts_52_48 = 100" "length counts_53_47 = 100"
    by (simp_all add: counts_52_48_def counts_53_47_def)
  show ?thesis
    using balance_warning_advisory [of counts_52_48 fixed_ztest fixed_ttest]
          balance_warning_advisory [of counts_53_47 fixed_ztest fixed_ttest]
    by (simp add: a b c d l)
qed

section \<open>A missing group\<close>

text \<open>
  C7, as the code has it. When group A or group B has no row, the run ends with the
  uncaught \<open>KeyError\<close> of the failed label lookup and produces no report, whatever the
  two tests would compute. When the table has at least one row, that exception is
  raised by the data quality checks, which precede the descriptive statistics.
\<close>

theorem missing_group_KeyError:
  assumes "group_rows df ''A'' = [] \<or> group_rows df ''B'' = []"
  shows "analysis ztest ttest df =
           Inl (KeyError (if group_rows df ''A'' = [] then ''A'' else ''B'')) \<and>
         (df \<noteq> [] \<longrightarrow>
            data_quality_checks df =
              Inl (KeyError (if group_rows df ''A'' = [] then ''A'' else ''B'')))"
proof -
  have "data_quality_checks df =
          Inl (KeyError (if group_rows df ''A'' = [] then ''A'' else ''B''))" if "df \<noteq> []"
    using that assms
    by (auto simp: data_quality_checks_def value_counts_def getitem_def Let_def)
  then show ?thesis using analysis_missing [OF assms] by blast
qed

theorem missing_group_KeyError_witness:
  "analysis fixed_ztest fixed_ttest only_group_A = Inl (KeyError ''B'') \<and>
   only_group_A \<noteq> [] \<and>
   data_quality_checks only_group_A = Inl (KeyError ''B'')"
proof -
  have a: "group_rows only_group_A ''A'' \<noteq> []" and b: "group_rows only_group_A ''B'' = []"
    by (simp_all add: only_group_A_def group_rows_def customer_def)
  have ne: "only_group_A \<noteq> []" by (simp add: only_group_A_def)
  show ?thesis
    using missing_group_KeyError [of only_group_A fixed_ztest fixed_ttest] a b ne by simp
qed

text \<open>
  C7, as the specification states it, fails: with only group A present the outcome is
  the \<open>KeyError\<close> of the lookup of \<open>'B'\<close>, which nothing in the script catches.
\<close>

theorem missing_group_counterexample:
  "data_quality_checks only_group_A = Inl (KeyError ''B'')"
  by (simp add: data_quality_checks_def value_counts_def getitem_def Let_def
        only_group_A_def group_rows_def customer_def)

section \<open>The proportion test\<close>

text \<open>
  C8. For success counts with \<open>0 \<le> k \<le> n\<close>, \<open>n > 0\<close> in either group and a pooled
  standard error that is not zero, the test succeeds in either order of the groups;
  swapping the groups negates the statistic and leaves the two-sided p-value unchanged.
\<close>

theorem ztest_swap_antisymmetric:
  assumes "0 \<le> kA" and "kA \<le> int nA" and "0 \<le> kB" and "kB \<le> int nB"
    and "0 < nA" and "0 < nB"
    and "pooled_SE (kA, kB) (nA, nB) \<noteq> 0"
  shows "\<exists>z p. proportions_ztest (kA, kB) (nA, nB) = Inr (z, p) \<and>
               proportions_ztest (kB, kA) (nB, nA) = Inr (- z, p)"
proof -
  have pp: "pooled_proportion (kB, kA) (nB, nA) = pooled_proportion (kA, kB) (nA, nB)"
    by (simp add: pooled_proportion_def add.commute)
  have se: "pooled_SE (kB, kA) (nB, nA) = pooled_SE (kA, kB) (nA, nB)"
    by (simp add: pooled_SE_def pp add.commute)
  have z: "z_statistic (kB, kA) (nB, nA) = - z_statistic (kA, kB) (nA, nB)"
    by (simp add: z_statistic_def se minus_divide_left)
  have p: "normal_p_value (- z_statistic (kA, kB) (nA, nB)) = normal_p_value (z_statistic (kA, kB) (nA, nB))"
    by (simp add: normal_p_value_def)
  show ?thesis using assms(7) by (simp add: proportions_ztest_def se z p)
qed


theorem ztest_swap_antisymmetric_witness:
  "pooled_SE (8, 5) (10, 10) \<noteq> 0 \<and>
   (\<exists>z p. proportions_ztest (8, 5) (10, 10) = Inr (z, p) \<and>
          proportions_ztest (5, 8) (10, 10) = Inr (- z, p))"
proof -
  have ne: "pooled_SE (8, 5) (10, 10) \<noteq> 0"
    using scenario1_SE_bounds(1) by simp
  show ?thesis
    using ztest_swap_antisymmetric [of 8 10 5 10, OF _ _ _ _ _ _ ne] ne by simp
qed

text \<open>
  C3. On the success counts 8 and 5 out of 10 and 10, the pooled two-sided z-test gives
  the pooled proportion 0.65, a pooled standard error that rounds to 0.2133, a statistic
  that rounds to 1.406 and a two-sided p-value that rounds to 0.16; the p-value is not
  below 0.05, so the conclusion is not significant.
\<close>

theorem scenario1_proportions_ztest:
  "pooled_proportion (8, 5) (10, 10) = 65 / 100 \<and>
   \<bar>pooled_SE (8, 5) (10, 10) - 2133 / 10000\<bar> < 5 / 100000 \<and>
   (\<exists>z p. proportions_ztest (8, 5) (10, 10) = Inr (z, p) \<and>
      \<bar>z - 1406 / 1000\<bar> < 5 / 10000 \<and> \<bar>p - 16 / 100\<bar> < 5 / 1000 \<and>
      \<not> p < ALPHA \<and> dynamic_conclusion ALPHA p = FAIL_TO_REJECT)"
proof -
  have ne: "pooled_SE (8, 5) (10, 10) \<noteq> 0" using scenario1_SE_bounds(1) by simp
  have "\<bar>pooled_SE (8, 5) (10, 10) - 2133 / 10000\<bar> < 5 / 100000"
    using scenario1_SE_bounds by linarith
  moreover have "\<bar>z_statistic (8, 5) (10, 10) - 1406 / 1000\<bar> < 5 / 10000"
    using scenario1_z_bounds by linarith
  moreover have "\<bar>normal_p_value (z_statistic (8, 5) (10, 10)) - 16 / 100\<bar> < 5 / 1000"
    using scenario1_p_bounds by linarith
  moreover have "\<not> normal_p_value (z_statistic (8, 5) (10, 10)) < ALPHA"
    using scenario1_p_bounds(1) by (simp add: ALPHA_def)
  ultimately show ?thesis
    using ne by (simp add: scenario1_pooled proportions_ztest_def dynamic_conclusion_def)
qed


section \<open>The mean test\<close>

text \<open>
  C9. For two samples of at least two observations each whose standard error is not
  zero, the Welch--Satterthwaite degrees of freedom lie between \<open>min(n_A, n_B) - 1\<close>
  and \<open>n_A + n_B - 2\<close>, both included.
\<close>

theorem welch_df_bounds:
  assumes "2 \<le> length a" and "2 \<le> length b" and "welch_SE a b \<noteq> 0"
  shows "min (real (length a)) (real (length b)) - 1 \<le> welch_df a b \<and>
         welch_df a b \<le> real (length a) + real (length b) - 2"
proof -
  let ?u = "var_over_n a" and ?v = "var_over_n b"
  let ?m = "real (length a) - 1" and ?k = "real (length b) - 1"
  have u: "0 \<le> ?u" and v: "0 \<le> ?v"
    using assms var_over_n_nonneg by auto
  have "?u + ?v \<noteq> 0" using assms(3) by (auto simp: welch_SE_def)
  then have pos: "0 < ?u + ?v" using u v by linarith
  have m: "1 \<le> ?m" and k: "1 \<le> ?k" using assms by auto
  have "welch_SE a b ^ 4 = (?u + ?v)\<^sup>2"
  proof -
    have "welch_SE a b ^ 4 = ((sqrt (?u + ?v))\<^sup>2)\<^sup>2"
      by (simp add: welch_SE_def)
    also have "\<dots> = (?u + ?v)\<^sup>2" using pos by simp
    finally show ?thesis .
  qed
  then have df: "welch_df a b = (?u + ?v)\<^sup>2 / (?u\<^sup>2 / ?m + ?v\<^sup>2 / ?k)"
    by (simp add: welch_df_def)
  have "min ?m ?k = min (real (length a)) (real (length b)) - 1" by linarith
  moreover have "?m + ?k = real (length a) + real (length b) - 2" by simp
  ultimately show ?thesis
    using satterthwaite_ratio_bounds [OF u v pos m k] df by metis
qed


theorem welch_df_bounds_witness:
  "2 \<le> length arr_A_example \<and> 2 \<le> length arr_B_example \<and>
   welch_SE arr_A_example arr_B_example \<noteq> 0 \<and>
   4 \<le> welch_df arr_A_example arr_B_example \<and> welch_df arr_A_example arr_B_example \<le> 8"
proof -
  have l: "length arr_A_example = 5" "length arr_B_example = 5"
    by (simp_all add: arr_A_example_def arr_B_example_def)
  have ne: "welch_SE arr_A_example arr_B_example \<noteq> 0"
    by (simp add: example_SE)
  show ?thesis
    using welch_df_bounds [of arr_A_example arr_B_example] ne l by simp
qed

text \<open>
  C4. On the two groups of scenario 2, each of five observations, Welch's test gives the
  statistic \<open>t = -10\<close> (group A has the lower mean), 8 degrees of freedom and a
  two-sided p-value below 0.001, which is significant.
\<close>

theorem scenario2_ttest_ind:
  "mean arr_A_example < mean arr_B_example \<and>
   welch_df arr_A_example arr_B_example = 8 \<and>
   (\<exists>t p. ttest_ind arr_A_example arr_B_example = Inr (t, p) \<and>
      t = - 10 \<and> 0 < p \<and> p < 1 / 1000 \<and> p < ALPHA \<and> dynamic_conclusion ALPHA p = REJECT)"
proof -
  have l: "length arr_A_example = 5" "length arr_B_example = 5"
    by (simp_all add: arr_A_example_def arr_B_example_def)
  have "ttest_ind arr_A_example arr_B_example = Inr (- 10, t_p_value 8 (- 10))"
    by (simp add: ttest_ind_def l example_SE example_t example_df)
  moreover have "t_p_value 8 (- 10) < ALPHA"
    using example_t_p_value(2) by (simp add: ALPHA_def)
  ultimately show ?thesis
    using example_t_p_value by (simp add: example_means example_df dynamic_conclusion_def)
qed


end
